theory Spec2Isabelle
  imports Main "HOL-Library.Word"
begin

section \<open>Images as the imaging library holds them\<close>

text \<open>
  The script \<^verbatim>\<open>apply-green-tint.py\<close> is a straight line of calls into the imaging
  library. An image is a mode, a size (width, height) and one plane of 8-bit samples per
  band, each plane in row-major order. The model covers the 8-bit modes without a
  palette: \<open>L\<close>, \<open>LA\<close>, \<open>RGB\<close> and \<open>RGBA\<close>. An \<open>L\<close> or \<open>RGB\<close> image read from a file
  with a transparency chunk carries a colour key (\<^verbatim>\<open>info['transparency']\<close>): the one
  colour, a sample per band, that stands for transparent.
\<close>

type_synonym u8 = "8 word"

datatype mode = L | LA | RGB | RGBA

fun getmodebands :: "mode \<Rightarrow> nat" where
  "getmodebands L = 1"
| "getmodebands LA = 2"
| "getmodebands RGB = 3"
| "getmodebands RGBA = 4"

record image =
  img_mode :: mode
  img_size :: "nat \<times> nat"
  img_bands :: "u8 list list"
  img_transparency :: "u8 list option"

definition npixels :: "nat \<times> nat \<Rightarrow> nat" where
  "npixels sz = fst sz * snd sz"

text \<open>
  The library keeps every image consistent with its mode and size: as many planes as the
  mode has bands, each holding width times height samples. The colour key of an \<open>L\<close> or
  \<open>RGB\<close> image has one sample per band; the other modes make no use of one.
\<close>

fun key_fits :: "mode \<Rightarrow> u8 list option \<Rightarrow> bool" where
  "key_fits L (Some k) = (length k = 1)"
| "key_fits RGB (Some k) = (length k = 3)"
| "key_fits m t = True"

definition valid_image :: "image \<Rightarrow> bool" where
  "valid_image img \<longleftrightarrow>
     length (img_bands img) = getmodebands (img_mode img) \<and>
     list_all (\<lambda>b. length b = npixels (img_size img)) (img_bands img) \<and>
     key_fits (img_mode img) (img_transparency img)"

datatype error = FileNotFoundError | UnidentifiedImageError | PermissionError
  | ValueError | IndexError

text \<open>The errors that are operating-system (file access) errors in Python's hierarchy.\<close>

fun is_OSError :: "error \<Rightarrow> bool" where
  "is_OSError FileNotFoundError = True"
| "is_OSError UnidentifiedImageError = True"
| "is_OSError PermissionError = True"
| "is_OSError ValueError = False"
| "is_OSError IndexError = False"

text \<open>\<^verbatim>\<open>img.getpixel((x, y))\<close>: the samples of one pixel, one per band.\<close>

definition getpixel :: "image \<Rightarrow> nat \<times> nat \<Rightarrow> error + u8 list" where
  "getpixel img xy =
     (if fst xy < fst (img_size img) \<and> snd xy < snd (img_size img)
      then Inr (map (\<lambda>b. b ! (snd xy * fst (img_size img) + fst xy)) (img_bands img))
      else Inl IndexError)"

text \<open>
  \<^verbatim>\<open>img.convert('RGBA')\<close>: an \<open>RGBA\<close> image is copied; \<open>RGB\<close> gains an alpha plane;
  \<open>L\<close> is spread over the three colour bands and gains an alpha plane; \<open>LA\<close> is spread
  over the three colour bands and keeps its alpha plane. The alpha plane an \<open>L\<close> or \<open>RGB\<close>
  image gains is opaque (255) throughout when the image has no colour key; when it has
  one, the conversion promotes the key to alpha: 0 at the pixels whose samples are the
  key, 255 at the others, and the converted image carries the key no longer.
\<close>

definition key_alpha :: "u8 list list \<Rightarrow> u8 list \<Rightarrow> nat \<Rightarrow> u8 list" where
  "key_alpha bs k n = map (\<lambda>i. if map (\<lambda>b. b ! i) bs = k then 0 else 255) [0..<n]"

definition gained_alpha :: "image \<Rightarrow> u8 list" where
  "gained_alpha img =
     (case img_transparency img of
        None \<Rightarrow> replicate (npixels (img_size img)) 255
      | Some k \<Rightarrow> key_alpha (img_bands img) k (npixels (img_size img)))"

fun convert_bands :: "mode \<Rightarrow> u8 list \<Rightarrow> u8 list list \<Rightarrow> u8 list list" where
  "convert_bands RGBA alpha bs = bs"
| "convert_bands RGB alpha bs = bs @ [alpha]"
| "convert_bands L alpha bs = bs @ bs @ bs @ [alpha]"
| "convert_bands LA alpha bs = take 1 bs @ take 1 bs @ bs"

fun convert_info :: "mode \<Rightarrow> u8 list option \<Rightarrow> u8 list option" where
  "convert_info RGBA t = t"
| "convert_info RGB t = None"
| "convert_info L t = None"
| "convert_info LA t = t"

definition convert_RGBA :: "image \<Rightarrow> image" where
  "convert_RGBA img =
     \<lparr>img_mode = RGBA, img_size = img_size img,
      img_bands = convert_bands (img_mode img) (gained_alpha img) (img_bands img),
      img_transparency = convert_info (img_mode img) (img_transparency img)\<rparr>"

text \<open>
  \<^verbatim>\<open>img.split()\<close>: one \<open>L\<close> image per band, each of the image's size and with a copy
  of its \<^verbatim>\<open>info\<close>.
\<close>

definition split_bands :: "image \<Rightarrow> image list" where
  "split_bands img =
     map (\<lambda>b. \<lparr>img_mode = L, img_size = img_size img, img_bands = [b],
               img_transparency = img_transparency img\<rparr>) (img_bands img)"

text \<open>
  \<^verbatim>\<open>Image.new('L', size, color)\<close>: a single plane filled with one value, with an empty
  \<^verbatim>\<open>info\<close>.
\<close>

definition Image_new_L :: "nat \<times> nat \<Rightarrow> u8 \<Rightarrow> image" where
  "Image_new_L sz color =
     \<lparr>img_mode = L, img_size = sz, img_bands = [replicate (npixels sz) color],
      img_transparency = None\<rparr>"

text \<open>
  \<^verbatim>\<open>Image.merge(mode, bands)\<close>: the number of bands must be the mode's; every band after
  the first must be an \<open>L\<close> image of the first band's size; the merged image has the first
  band's size and \<^verbatim>\<open>info\<close>, and the bands' planes in order.
\<close>

fun check_bands :: "nat \<times> nat \<Rightarrow> image list \<Rightarrow> error option" where
  "check_bands sz [] = None"
| "check_bands sz (b # bs) =
     (if img_mode b \<noteq> L then Some ValueError
      else if img_size b \<noteq> sz then Some ValueError
      else check_bands sz bs)"

definition merge :: "mode \<Rightarrow> image list \<Rightarrow> error + image" where
  "merge m bs =
     (case bs of
        [] \<Rightarrow> Inl ValueError
      | b0 # rest \<Rightarrow>
          if getmodebands m \<noteq> length bs then Inl ValueError
          else (case check_bands (img_size b0) rest of
                  Some e \<Rightarrow> Inl e
                | None \<Rightarrow> Inr \<lparr>img_mode = m, img_size = img_size b0,
                                img_bands = concat (map img_bands bs),
                                img_transparency = img_transparency b0\<rparr>))"

section \<open>The recolouring, lines 9 to 21\<close>

definition target_r :: u8 where "target_r = 0x08"
definition target_g :: u8 where "target_g = 0xCB"
definition target_b :: u8 where "target_b = 0x00"

text \<open>
  \<^verbatim>\<open>r, g, b, a = img.split()\<close> raises \<open>ValueError\<close> unless the split gives exactly four
  bands. The three new planes take the image's size; only \<open>a\<close> reaches the merge.
\<close>

definition recolor :: "image \<Rightarrow> error + image" where
  "recolor img =
     (case split_bands img of
        [r, g, b, a] \<Rightarrow>
          (let new_r = Image_new_L (img_size img) target_r;
               new_g = Image_new_L (img_size img) target_g;
               new_b = Image_new_L (img_size img) target_b
           in merge RGBA [new_r, new_g, new_b, a])
      | _ \<Rightarrow> Inl ValueError)"

text \<open>The in-memory part of the script: the conversion of line 6, then lines 9 to 21.\<close>

definition convert_and_recolor :: "image \<Rightarrow> error + image" where
  "convert_and_recolor img = recolor (convert_RGBA img)"

section \<open>Files, codecs and the console\<close>

text \<open>
  The script reads one file and writes two. The encoders and decoders belong to the
  imaging library, not to the script, so they are parameters: \<open>decode\<close> is what opening
  and loading a file's bytes gives (\<open>None\<close> when no decoder accepts them), \<open>encode\<close> is
  what saving an image in a format writes.
\<close>

type_synonym path = string
type_synonym bytes = "u8 list"

datatype format = PNG | ICO

record codec =
  decode :: "bytes \<Rightarrow> image option"
  encode :: "format \<Rightarrow> image \<Rightarrow> bytes"

text \<open>
  The world of a run: the files by path, the paths that can be opened for writing, and
  the lines printed so far (as UTF-8 bytes). Printing is taken to succeed.
\<close>

record world =
  files :: "path \<rightharpoonup> bytes"
  writable :: "path \<Rightarrow> bool"
  stdout :: "string list"

text \<open>\<^verbatim>\<open>Image.open(path)\<close>, with the loading that \<^verbatim>\<open>convert\<close> forces.\<close>

definition Image_open :: "codec \<Rightarrow> world \<Rightarrow> path \<Rightarrow> error + image" where
  "Image_open c w p =
     (case files w p of
        None \<Rightarrow> Inl FileNotFoundError
      | Some bs \<Rightarrow>
          (case decode c bs of
             None \<Rightarrow> Inl UnidentifiedImageError
           | Some img \<Rightarrow> Inr img))"

text \<open>
  \<^verbatim>\<open>img.save(path)\<close> takes the format from the path's extension (the text from the last
  dot on), raises \<open>ValueError\<close> for an extension it does not know, then opens the file for
  writing and writes the encoded image. Of the library's extension table the model keeps
  the two entries the script's paths use. In the model a save fails only where the file
  cannot be opened for writing, and the file is then as it was; an encoder that gives up
  after the file was opened is outside the model.
\<close>

definition splitext :: "path \<Rightarrow> string" where
  "splitext p =
     (if CHR ''.'' \<in> set p
      then CHR ''.'' # rev (takeWhile (\<lambda>ch. ch \<noteq> CHR ''.'') (rev p))
      else [])"

definition EXTENSION :: "string \<rightharpoonup> format" where
  "EXTENSION = [''.png'' \<mapsto> PNG, ''.ico'' \<mapsto> ICO]"

definition save :: "codec \<Rightarrow> world \<Rightarrow> image \<Rightarrow> path \<Rightarrow> error + world" where
  "save c w img p =
     (case EXTENSION (splitext p) of
        None \<Rightarrow> Inl ValueError
      | Some fmt \<Rightarrow>
          if writable w p
          then Inr (w\<lparr>files := (files w)(p \<mapsto> encode c fmt img)\<rparr>)
          else Inl PermissionError)"

definition print_line :: "world \<Rightarrow> string \<Rightarrow> world" where
  "print_line w s = w\<lparr>stdout := stdout w @ [s]\<rparr>"

section \<open>The script\<close>

definition icon_path :: path where
  "icon_path = ''c:'' @ CHR 0x5C # ''Users'' @ CHR 0x5C # ''yonat'' @ CHR 0x5C # ''repos''
     @ CHR 0x5C # ''timer'' @ CHR 0x5C # ''build-resources'' @ CHR 0x5C # ''icon.png''"

definition ico_path :: path where
  "ico_path = ''c:'' @ CHR 0x5C # ''Users'' @ CHR 0x5C # ''yonat'' @ CHR 0x5C # ''repos''
     @ CHR 0x5C # ''timer'' @ CHR 0x5C # ''build-resources'' @ CHR 0x5C # ''icon.ico''"

text \<open>The two confirmation lines; each starts with a check mark (U+2713, three bytes).\<close>

definition msg_png :: string where
  "msg_png = [CHR 0xE2, CHR 0x9C, CHR 0x93]
     @ '' Icon PNG updated with green color (08CB00) - transparency preserved''"

definition msg_ico :: string where
  "msg_ico = [CHR 0xE2, CHR 0x9C, CHR 0x93] @ '' Icon converted to ICO format''"

text \<open>
  The module's statements run once, top to bottom; an exception ends the run. A
  configuration is the point reached, with the live variable (\<open>img\<close>, then \<open>result\<close>),
  and the world.
  \<^item> \<open>Start\<close> to \<open>Loaded\<close>: line 6.
  \<^item> \<open>Loaded\<close> to \<open>Recolored\<close>: lines 9 to 21.
  \<^item> \<open>Recolored\<close> to \<open>Saved_raster\<close>: lines 24 and 25.
  \<^item> \<open>Saved_raster\<close> to \<open>Saved_icon\<close>: lines 28 to 30.
\<close>

datatype stage = Start | Loaded image | Recolored image | Saved_raster image
  | Saved_icon | Done | Aborted error

fun step :: "codec \<Rightarrow> stage \<times> world \<Rightarrow> stage \<times> world" where
  "step c (Start, w) =
     (case Image_open c w icon_path of
        Inl e \<Rightarrow> (Aborted e, w)
      | Inr img \<Rightarrow> (Loaded (convert_RGBA img), w))"
| "step c (Loaded img, w) =
     (case recolor img of
        Inl e \<Rightarrow> (Aborted e, w)
      | Inr result \<Rightarrow> (Recolored result, w))"
| "step c (Recolored result, w) =
     (case save c w result icon_path of
        Inl e \<Rightarrow> (Aborted e, w)
      | Inr w' \<Rightarrow> (Saved_raster result, print_line w' msg_png))"
| "step c (Saved_raster result, w) =
     (case save c w result ico_path of
        Inl e \<Rightarrow> (Aborted e, w)
      | Inr w' \<Rightarrow> (Saved_icon, print_line w' msg_ico))"
| "step c (Saved_icon, w) = (Done, w)"
| "step c (Done, w) = (Done, w)"
| "step c (Aborted e, w) = (Aborted e, w)"

fun final :: "stage \<Rightarrow> bool" where
  "final Done = True"
| "final (Aborted e) = True"
| "final _ = False"

text \<open>The configurations a run passes through, in order, for at most \<open>n\<close> steps.\<close>

fun execute :: "codec \<Rightarrow> nat \<Rightarrow> stage \<times> world \<Rightarrow> (stage \<times> world) list" where
  "execute c 0 cfg = [cfg]"
| "execute c (Suc n) cfg =
     (if final (fst cfg) then [cfg] else cfg # execute c n (step c cfg))"

definition run :: "codec \<Rightarrow> world \<Rightarrow> (stage \<times> world) list" where
  "run c w = execute c 5 (Start, w)"

definition outcome :: "codec \<Rightarrow> world \<Rightarrow> stage \<times> world" where
  "outcome c w = last (run c w)"

text \<open>The points of the run without their data, to speak of the order alone.\<close>

datatype phase = At_start | At_loaded | At_recolored | At_saved_raster | At_saved_icon
  | At_done | At_aborted

fun phase_of :: "stage \<Rightarrow> phase" where
  "phase_of Start = At_start"
| "phase_of (Loaded img) = At_loaded"
| "phase_of (Recolored result) = At_recolored"
| "phase_of (Saved_raster result) = At_saved_raster"
| "phase_of Saved_icon = At_saved_icon"
| "phase_of Done = At_done"
| "phase_of (Aborted e) = At_aborted"

definition phases :: "codec \<Rightarrow> world \<Rightarrow> phase list" where
  "phases c w = map (\<lambda>cfg. phase_of (fst cfg)) (run c w)"

text \<open>The order of the script's points, before its end.\<close>

definition script_order :: "phase list" where
  "script_order = [At_start, At_loaded, At_recolored, At_saved_raster, At_saved_icon]"

section \<open>A concrete codec and concrete worlds\<close>

text \<open>
  A small uncompressed container to run the script on: a format tag, the width, the
  height, then the four planes of an \<open>RGBA\<close> image. The theorems below are about every
  codec; this one serves to evaluate them on concrete files.
\<close>

fun format_tag :: "format \<Rightarrow> u8" where
  "format_tag PNG = 1"
| "format_tag ICO = 2"

definition raw_encode :: "format \<Rightarrow> image \<Rightarrow> bytes" where
  "raw_encode fmt img =
     format_tag fmt # of_nat (fst (img_size img)) # of_nat (snd (img_size img))
       # concat (img_bands img)"

definition raw_decode :: "bytes \<Rightarrow> image option" where
  "raw_decode bs =
     (case bs of
        t # wd # ht # px \<Rightarrow>
          (let n = unat wd * unat ht in
           if length px = 4 * n
           then Some \<lparr>img_mode = RGBA, img_size = (unat wd, unat ht),
                      img_bands = [take n px, take n (drop n px),
                                   take n (drop (2 * n) px), drop (3 * n) px],
                      img_transparency = None\<rparr>
           else None)
      | _ \<Rightarrow> None)"

definition raw_codec :: codec where
  "raw_codec = \<lparr>decode = raw_decode, encode = raw_encode\<rparr>"

text \<open>A 2 by 1 icon: a red opaque pixel and a blue half-transparent one.\<close>

definition sample_image :: image where
  "sample_image =
     \<lparr>img_mode = RGBA, img_size = (2, 1),
      img_bands = [[255, 0], [0, 0], [0, 255], [255, 128]], img_transparency = None\<rparr>"

definition sample_rgb :: image where
  "sample_rgb =
     \<lparr>img_mode = RGB, img_size = (2, 1), img_bands = [[255, 0], [0, 0], [0, 255]],
      img_transparency = None\<rparr>"

text \<open>The same two pixels read from a file whose transparency chunk names red.\<close>

definition keyed_rgb :: image where
  "keyed_rgb = sample_rgb\<lparr>img_transparency := Some [255, 0, 0]\<rparr>"

definition sample_world :: world where
  "sample_world =
     \<lparr>files = [icon_path \<mapsto> raw_encode PNG sample_image],
      writable = (\<lambda>p. True), stdout = []\<rparr>"

text \<open>The same world with the icon path read-only (say, open in another program).\<close>

definition locked_ico_world :: world where
  "locked_ico_world = sample_world\<lparr>writable := (\<lambda>p. p \<noteq> ico_path)\<rparr>"

definition empty_world :: world where
  "empty_world = \<lparr>files = Map.empty, writable = (\<lambda>p. True), stdout = []\<rparr>"

section \<open>What the specification describes\<close>

text \<open>The alpha plane of an \<open>RGBA\<close> image: its fourth band.\<close>

definition alpha_plane :: "image \<Rightarrow> u8 list" where
  "alpha_plane img = img_bands img ! 3"

text \<open>
  The image the specification describes, written from its words: of a given size, every
  pixel with the colour (8, 203, 0), and a given alpha plane.
\<close>

definition tinted :: "nat \<times> nat \<Rightarrow> u8 list \<Rightarrow> image" where
  "tinted sz a =
     \<lparr>img_mode = RGBA, img_size = sz,
      img_bands = [replicate (npixels sz) 8, replicate (npixels sz) 203,
                   replicate (npixels sz) 0, a],
      img_transparency = None\<rparr>"

section \<open>The recolouring computes the tinted image\<close>

lemma four_bands:
  assumes "length bs = 4"
  obtains r g b a where "bs = [r, g, b, a]"
proof -
  from assms obtain r t1 where 1: "bs = r # t1" and "length t1 = 3"
    by (cases bs) auto
  then obtain g t2 where 2: "t1 = g # t2" and "length t2 = 2"
    by (cases t1) auto
  then obtain b t3 where 3: "t2 = b # t3" and "length t3 = 1"
    by (cases t2) auto
  then obtain a where "t3 = [a]"
    by (cases t3) auto
  with 1 2 3 have "bs = [r, g, b, a]" by simp
  then show thesis by (rule that)
qed

lemma recolor_four_bands:
  assumes "img_bands img = [r, g, b, a]"
  shows "recolor img =
    Inr \<lparr>img_mode = RGBA, img_size = img_size img,
         img_bands = [replicate (npixels (img_size img)) target_r,
                      replicate (npixels (img_size img)) target_g,
                      replicate (npixels (img_size img)) target_b, a],
         img_transparency = None\<rparr>"
  using assms by (simp add: recolor_def split_bands_def merge_def Image_new_L_def)

lemma convert_bands_length:
  "length bs = getmodebands m \<Longrightarrow> length (convert_bands m opaque bs) = 4"
  by (cases m) auto

lemma convert_bands_planes:
  assumes "length bs = getmodebands m" and "list_all (\<lambda>b. length b = n) bs"
    and "length opaque = n"
  shows "list_all (\<lambda>b. length b = n) (convert_bands m opaque bs)"
  using assms by (cases m) (auto simp: list_all_iff dest: in_set_takeD)

lemma gained_alpha_length: "length (gained_alpha img) = npixels (img_size img)"
  by (simp add: gained_alpha_def key_alpha_def split: option.split)

lemma convert_info_fits: "key_fits RGBA (convert_info m t)"
  by simp

lemma convert_RGBA_valid: "valid_image img \<Longrightarrow> valid_image (convert_RGBA img)"
  by (simp add: valid_image_def convert_RGBA_def convert_bands_length convert_bands_planes
      gained_alpha_length)

lemma convert_RGBA_same: "img_mode img = RGBA \<Longrightarrow> convert_RGBA img = img"
  by (simp add: convert_RGBA_def)

lemma convert_RGBA_size: "img_size (convert_RGBA img) = img_size img"
  by (simp add: convert_RGBA_def)

lemma convert_RGBA_RGB_gained:
  "valid_image img \<Longrightarrow> img_mode img = RGB \<Longrightarrow>
     alpha_plane (convert_RGBA img) = gained_alpha img"
  by (simp add: valid_image_def convert_RGBA_def alpha_plane_def nth_append)

lemma convert_RGBA_RGB_alpha:
  "valid_image img \<Longrightarrow> img_mode img = RGB \<Longrightarrow> img_transparency img = None \<Longrightarrow>
     alpha_plane (convert_RGBA img) = replicate (npixels (img_size img)) 255"
  by (simp add: convert_RGBA_RGB_gained gained_alpha_def)

lemma convert_and_recolor_tinted:
  assumes "valid_image img"
  shows "convert_and_recolor img =
    Inr (tinted (img_size img) (alpha_plane (convert_RGBA img)))"
proof -
  have "length (img_bands (convert_RGBA img)) = 4"
    using assms by (simp add: valid_image_def convert_RGBA_def convert_bands_length)
  then obtain r g b a where bs: "img_bands (convert_RGBA img) = [r, g, b, a]"
    by (rule four_bands)
  from bs have "alpha_plane (convert_RGBA img) = a"
    by (simp add: alpha_plane_def)
  with recolor_four_bands [OF bs] show ?thesis
    by (simp add: convert_and_recolor_def convert_RGBA_size tinted_def
        target_r_def target_g_def target_b_def)
qed

lemma alpha_plane_length:
  assumes "valid_image img"
  shows "length (alpha_plane (convert_RGBA img)) = npixels (img_size img)"
proof -
  from assms have v: "valid_image (convert_RGBA img)"
    by (rule convert_RGBA_valid)
  then have "length (img_bands (convert_RGBA img)) = 4"
    by (simp add: valid_image_def convert_RGBA_def)
  moreover from v
  have "\<forall>b \<in> set (img_bands (convert_RGBA img)). length b = npixels (img_size img)"
    by (simp add: valid_image_def list_all_iff convert_RGBA_def)
  ultimately show ?thesis by (simp add: alpha_plane_def)
qed

lemma pixel_index: "x < w \<Longrightarrow> y < h \<Longrightarrow> y * w + x < w * (h::nat)"
proof -
  assume x: "x < w" and y: "y < h"
  from x have "y * w + x < Suc y * w" by simp
  also from y have "Suc y * w \<le> h * w" by (intro mult_le_mono1) simp
  finally show ?thesis by (simp add: mult.commute)
qed

lemma getpixel_tinted:
  assumes "x < fst sz" and "y < snd sz"
  shows "getpixel (tinted sz a) (x, y) = Inr [8, 203, 0, a ! (y * fst sz + x)]"
proof -
  from assms have "y * fst sz + x < npixels sz"
    by (simp add: npixels_def pixel_index)
  with assms show ?thesis by (simp add: getpixel_def tinted_def)
qed

lemma tinted_valid: "length a = npixels sz \<Longrightarrow> valid_image (tinted sz a)"
  by (simp add: valid_image_def tinted_def)

lemma sample_image_valid: "valid_image sample_image"
  by (simp add: valid_image_def sample_image_def npixels_def)

lemma sample_rgb_valid: "valid_image sample_rgb"
  by (simp add: valid_image_def sample_rgb_def npixels_def)

lemma sample_image_recolored:
  "convert_and_recolor sample_image = Inr (tinted (2, 1) [255, 128])"
  using sample_image_valid
  by (simp add: convert_and_recolor_tinted convert_RGBA_same alpha_plane_def
      sample_image_def)

lemma sample_rgb_recolored:
  "convert_and_recolor sample_rgb = Inr (tinted (2, 1) [255, 255])"
proof -
  have "img_mode sample_rgb = RGB" and "img_transparency sample_rgb = None"
    and "img_size sample_rgb = (2, 1)"
    by (simp_all add: sample_rgb_def)
  with sample_rgb_valid show ?thesis
    by (simp add: convert_and_recolor_tinted convert_RGBA_RGB_alpha npixels_def
        numeral_2_eq_2)
qed

lemma keyed_rgb_valid: "valid_image keyed_rgb"
  by (simp add: valid_image_def keyed_rgb_def sample_rgb_def npixels_def)

lemma keyed_rgb_gained: "gained_alpha keyed_rgb = [0, 255]"
proof -
  have "[0..<2] = [0, Suc 0]"
    by (simp add: numeral_2_eq_2 upt_rec)
  then show ?thesis
    by (simp add: gained_alpha_def key_alpha_def keyed_rgb_def sample_rgb_def npixels_def)
qed

lemma keyed_rgb_recolored:
  "convert_and_recolor keyed_rgb = Inr (tinted (2, 1) [0, 255])"
proof -
  have "img_mode keyed_rgb = RGB" and "img_size keyed_rgb = (2, 1)"
    by (simp_all add: keyed_rgb_def sample_rgb_def)
  with keyed_rgb_valid show ?thesis
    by (simp add: convert_and_recolor_tinted convert_RGBA_RGB_gained keyed_rgb_gained)
qed

section \<open>The claims about the image\<close>

text \<open>
  C1. For every valid input image, the recolouring succeeds and every pixel of the output
  has red 8, green 203 and blue 0, whatever the colours of the input were. (The input may
  be of any mode of the model, with or without an alpha channel.)
\<close>

theorem output_rgb_is_target:
  assumes "valid_image img"
  shows "\<exists>out. convert_and_recolor img = Inr out \<and>
     (\<forall>x y. x < fst (img_size img) \<and> y < snd (img_size img) \<longrightarrow>
        (\<exists>al. getpixel out (x, y) = Inr [8, 203, 0, al]))"
  using assms by (simp add: convert_and_recolor_tinted getpixel_tinted)

theorem output_rgb_is_target_witness:
  "valid_image sample_image \<and>
   (\<exists>out. convert_and_recolor sample_image = Inr out \<and>
      getpixel out (0, 0) = Inr [8, 203, 0, 255] \<and>
      getpixel out (1, 0) = Inr [8, 203, 0, 128])"
proof -
  from output_rgb_is_target [OF sample_image_valid]
  obtain out where o: "convert_and_recolor sample_image = Inr out"
    by blast
  with sample_image_recolored have "out = tinted (2, 1) [255, 128]"
    by simp
  then have "getpixel out (0, 0) = Inr [8, 203, 0, 255]"
    and "getpixel out (1, 0) = Inr [8, 203, 0, 128]"
    by (simp_all add: getpixel_tinted)
  with sample_image_valid o show ?thesis by blast
qed

text \<open>
  C2. For every valid input image, the output has the input's width and height, is in
  mode \<open>RGBA\<close>, and its alpha plane is the alpha plane of the converted input, sample for
  sample; for an input that is already \<open>RGBA\<close> that is the input's own alpha plane.
\<close>

theorem output_keeps_size_and_alpha:
  assumes "valid_image img"
  shows "\<exists>out. convert_and_recolor img = Inr out \<and>
     img_mode out = RGBA \<and> valid_image out \<and>
     img_size out = img_size img \<and>
     alpha_plane out = alpha_plane (convert_RGBA img) \<and>
     (img_mode img = RGBA \<longrightarrow> alpha_plane out = alpha_plane img)"
proof -
  let ?out = "tinted (img_size img) (alpha_plane (convert_RGBA img))"
  from assms have "convert_and_recolor img = Inr ?out"
    by (rule convert_and_recolor_tinted)
  moreover have "valid_image ?out"
    using assms by (simp add: tinted_valid alpha_plane_length)
  moreover have "img_mode ?out = RGBA" and "img_size ?out = img_size img"
    and "alpha_plane ?out = alpha_plane (convert_RGBA img)"
    by (simp_all add: tinted_def alpha_plane_def)
  ultimately show ?thesis
    by (auto simp: convert_RGBA_same)
qed

theorem output_keeps_size_and_alpha_witness:
  "valid_image sample_image \<and> img_mode sample_image = RGBA \<and>
   (\<exists>out. convert_and_recolor sample_image = Inr out \<and>
      img_size out = (2, 1) \<and> alpha_plane out = [255, 128] \<and>
      alpha_plane sample_image = [255, 128])"
proof -
  have m: "img_mode sample_image = RGBA"
    by (simp add: sample_image_def)
  from output_keeps_size_and_alpha [OF sample_image_valid] m
  obtain out where "convert_and_recolor sample_image = Inr out"
    and "img_size out = img_size sample_image"
    and "alpha_plane out = alpha_plane sample_image"
    by blast
  moreover have "img_size sample_image = (2, 1)"
    and "alpha_plane sample_image = [255, 128]"
    by (simp_all add: sample_image_def alpha_plane_def)
  ultimately show ?thesis
    using sample_image_valid m by auto
qed

text \<open>
  C3. The recolouring is idempotent on images: applied to its own output it succeeds and
  gives that output again, the same mode, size and samples.
\<close>

theorem recolor_idempotent:
  assumes "valid_image img" and "convert_and_recolor img = Inr out"
  shows "convert_and_recolor out = Inr out"
proof -
  let ?a = "alpha_plane (convert_RGBA img)"
  from assms have out: "out = tinted (img_size img) ?a"
    by (simp add: convert_and_recolor_tinted)
  have v: "valid_image out"
    using assms(1) by (simp add: out tinted_valid alpha_plane_length)
  have "img_mode out = RGBA"
    by (simp add: out tinted_def)
  then have "convert_RGBA out = out"
    by (rule convert_RGBA_same)
  moreover have "img_size out = img_size img" and "alpha_plane out = ?a"
    by (simp_all add: out tinted_def alpha_plane_def)
  ultimately have "convert_and_recolor out = Inr (tinted (img_size img) ?a)"
    using convert_and_recolor_tinted [OF v] by simp
  then show ?thesis by (simp add: out)
qed

theorem recolor_idempotent_witness:
  "valid_image sample_image \<and>
   convert_and_recolor sample_image = Inr (tinted (2, 1) [255, 128]) \<and>
   convert_and_recolor (tinted (2, 1) [255, 128]) = Inr (tinted (2, 1) [255, 128])"
  using recolor_idempotent [OF sample_image_valid sample_image_recolored]
    sample_image_valid sample_image_recolored
  by simp

text \<open>
  C4, as stated, fails: a 3-channel image whose file names a transparent colour has no
  alpha channel, and its conversion gives alpha 0 at the pixels of that colour. Of the
  two pixels of the keyed sample the red one comes out fully transparent.
\<close>

theorem keyed_rgb_output_not_opaque:
  "valid_image keyed_rgb \<and> img_mode keyed_rgb = RGB \<and>
   length (img_bands keyed_rgb) = 3 \<and>
   alpha_plane (convert_RGBA keyed_rgb) = [0, 255] \<and>
   convert_and_recolor keyed_rgb = Inr (tinted (2, 1) [0, 255]) \<and>
   getpixel (tinted (2, 1) [0, 255]) (0, 0) = Inr [8, 203, 0, 0]"
proof -
  have "img_mode keyed_rgb = RGB" and "length (img_bands keyed_rgb) = 3"
    by (simp_all add: keyed_rgb_def sample_rgb_def)
  moreover from this keyed_rgb_valid
  have "alpha_plane (convert_RGBA keyed_rgb) = [0, 255]"
    by (simp add: convert_RGBA_RGB_gained keyed_rgb_gained)
  moreover have "getpixel (tinted (2, 1) [0, 255]) (0, 0) = Inr [8, 203, 0, 0]"
    by (simp add: getpixel_tinted)
  ultimately show ?thesis
    using keyed_rgb_valid keyed_rgb_recolored by simp
qed

text \<open>
  C4, amended. For every valid 3-channel (\<open>RGB\<close>) input image that carries no colour key,
  the converted image has an alpha plane of 255 throughout, and so has the output: every
  pixel of the output is (8, 203, 0, 255).
\<close>

theorem rgb_input_gives_opaque_output:
  assumes "valid_image img" and "img_mode img = RGB" and "img_transparency img = None"
  shows "alpha_plane (convert_RGBA img) = replicate (npixels (img_size img)) 255 \<and>
     (\<exists>out. convert_and_recolor img = Inr out \<and>
        alpha_plane out = replicate (npixels (img_size img)) 255 \<and>
        (\<forall>x y. x < fst (img_size img) \<and> y < snd (img_size img) \<longrightarrow>
           getpixel out (x, y) = Inr [8, 203, 0, 255]))"
proof -
  let ?n = "npixels (img_size img)"
  have a: "alpha_plane (convert_RGBA img) = replicate ?n 255"
    using assms by (rule convert_RGBA_RGB_alpha)
  have o: "convert_and_recolor img = Inr (tinted (img_size img) (replicate ?n 255))"
    using assms(1) a by (simp add: convert_and_recolor_tinted)
  have "alpha_plane (tinted (img_size img) (replicate ?n 255)) = replicate ?n 255"
    by (simp add: tinted_def alpha_plane_def)
  moreover have "getpixel (tinted (img_size img) (replicate ?n 255)) (x, y)
      = Inr [8, 203, 0, 255]"
    if "x < fst (img_size img)" and "y < snd (img_size img)" for x y
  proof -
    from that have "y * fst (img_size img) + x < ?n"
      by (simp add: npixels_def pixel_index)
    with that show ?thesis by (simp add: getpixel_tinted)
  qed
  ultimately show ?thesis using a o by simp
qed

theorem rgb_input_gives_opaque_output_witness:
  "valid_image sample_rgb \<and> img_mode sample_rgb = RGB \<and>
   img_transparency sample_rgb = None \<and>
   alpha_plane (convert_RGBA sample_rgb) = [255, 255] \<and>
   (\<exists>out. convert_and_recolor sample_rgb = Inr out \<and>
      getpixel out (0, 0) = Inr [8, 203, 0, 255] \<and>
      getpixel out (1, 0) = Inr [8, 203, 0, 255])"
proof -
  have m: "img_mode sample_rgb = RGB" and s: "img_size sample_rgb = (2, 1)"
    and t: "img_transparency sample_rgb = None"
    by (simp_all add: sample_rgb_def)
  from rgb_input_gives_opaque_output [OF sample_rgb_valid m t]
  have "alpha_plane (convert_RGBA sample_rgb) = replicate (npixels (2, 1)) 255"
    and "\<exists>out. convert_and_recolor sample_rgb = Inr out \<and>
        (\<forall>x y. x < 2 \<and> y < 1 \<longrightarrow> getpixel out (x, y) = Inr [8, 203, 0, 255])"
    by (auto simp: s)
  then show ?thesis
    using sample_rgb_valid m t by (auto simp: npixels_def numeral_2_eq_2)
qed

text \<open>
  C9. Two valid input images of the same size whose alpha planes (after the conversion of
  line 6, which leaves an \<open>RGBA\<close> image as it is) are equal give the same output,
  whatever their colours: the output is the tinted image of that size and alpha plane.
\<close>

theorem colours_do_not_interfere:
  assumes "valid_image img1" and "valid_image img2"
    and "img_size img1 = img_size img2"
    and "alpha_plane (convert_RGBA img1) = alpha_plane (convert_RGBA img2)"
  shows "convert_and_recolor img1 = convert_and_recolor img2 \<and>
     convert_and_recolor img1 =
       Inr (tinted (img_size img1) (alpha_plane (convert_RGBA img1)))"
  using assms by (simp add: convert_and_recolor_tinted)

theorem colours_do_not_interfere_witness:
  "valid_image sample_image \<and>
   valid_image (sample_image\<lparr>img_bands := [[1, 2], [3, 4], [5, 6], [255, 128]]\<rparr>) \<and>
   convert_and_recolor sample_image =
     convert_and_recolor (sample_image\<lparr>img_bands := [[1, 2], [3, 4], [5, 6], [255, 128]]\<rparr>)"
proof -
  let ?other = "sample_image\<lparr>img_bands := [[1, 2], [3, 4], [5, 6], [255, 128]]\<rparr>"
  have v: "valid_image ?other"
    by (simp add: valid_image_def sample_image_def npixels_def)
  have s: "img_size sample_image = img_size ?other"
    by simp
  have a: "alpha_plane (convert_RGBA sample_image) = alpha_plane (convert_RGBA ?other)"
    by (simp add: convert_RGBA_def alpha_plane_def sample_image_def)
  from colours_do_not_interfere [OF sample_image_valid v s a] sample_image_valid v
  show ?thesis by simp
qed

section \<open>Runs of the script\<close>


lemma execute_5:
  "execute c 5 cfg = execute c (Suc (Suc (Suc (Suc (Suc 0))))) cfg"
  by (simp add: eval_nat_numeral)

lemma splitext_icon: "EXTENSION (splitext icon_path) = Some PNG"
  by (simp add: splitext_def icon_path_def EXTENSION_def)

lemma splitext_ico: "EXTENSION (splitext ico_path) = Some ICO"
  by (simp add: splitext_def ico_path_def EXTENSION_def)

lemma paths_differ: "icon_path \<noteq> ico_path"
  by (simp add: icon_path_def ico_path_def)

lemma save_icon_path:
  "save c w img icon_path =
     (if writable w icon_path
      then Inr (w\<lparr>files := (files w)(icon_path \<mapsto> encode c PNG img)\<rparr>)
      else Inl PermissionError)"
  by (simp add: save_def splitext_icon)

lemma save_ico_path:
  "save c w img ico_path =
     (if writable w ico_path
      then Inr (w\<lparr>files := (files w)(ico_path \<mapsto> encode c ICO img)\<rparr>)
      else Inl PermissionError)"
  by (simp add: save_def splitext_ico)

lemma run_load_fails:
  assumes "Image_open c w icon_path = Inl e"
  shows "run c w = [(Start, w), (Aborted e, w)]"
  using assms by (simp add: run_def execute_5)

lemma run_recolor_fails:
  assumes "Image_open c w icon_path = Inr img0" and "recolor (convert_RGBA img0) = Inl e"
  shows "run c w = [(Start, w), (Loaded (convert_RGBA img0), w), (Aborted e, w)]"
  using assms by (simp add: run_def execute_5)

lemma run_raster_save_fails:
  assumes "Image_open c w icon_path = Inr img0"
    and "recolor (convert_RGBA img0) = Inr result"
    and "save c w result icon_path = Inl e"
  shows "run c w = [(Start, w), (Loaded (convert_RGBA img0), w), (Recolored result, w),
    (Aborted e, w)]"
  using assms by (simp add: run_def execute_5)

lemma run_icon_save_fails:
  assumes "Image_open c w icon_path = Inr img0"
    and "recolor (convert_RGBA img0) = Inr result"
    and "save c w result icon_path = Inr w1"
    and "save c (print_line w1 msg_png) result ico_path = Inl e"
  shows "run c w = [(Start, w), (Loaded (convert_RGBA img0), w), (Recolored result, w),
    (Saved_raster result, print_line w1 msg_png), (Aborted e, print_line w1 msg_png)]"
  using assms by (simp add: run_def execute_5)

lemma run_succeeds:
  assumes "Image_open c w icon_path = Inr img0"
    and "recolor (convert_RGBA img0) = Inr result"
    and "save c w result icon_path = Inr w1"
    and "save c (print_line w1 msg_png) result ico_path = Inr w2"
  shows "run c w = [(Start, w), (Loaded (convert_RGBA img0), w), (Recolored result, w),
    (Saved_raster result, print_line w1 msg_png), (Saved_icon, print_line w2 msg_ico),
    (Done, print_line w2 msg_ico)]"
  using assms by (simp add: run_def execute_5)



lemma run_cases:
  obtains
    (load_fails) e where "Image_open c w icon_path = Inl e"
      and "run c w = [(Start, w), (Aborted e, w)]"
  | (recolor_fails) img0 e where "Image_open c w icon_path = Inr img0"
      and "recolor (convert_RGBA img0) = Inl e"
      and "run c w = [(Start, w), (Loaded (convert_RGBA img0), w), (Aborted e, w)]"
  | (raster_save_fails) img0 result where "Image_open c w icon_path = Inr img0"
      and "recolor (convert_RGBA img0) = Inr result"
      and "\<not> writable w icon_path"
      and "run c w = [(Start, w), (Loaded (convert_RGBA img0), w), (Recolored result, w),
        (Aborted PermissionError, w)]"
  | (icon_save_fails) img0 result w1 where "Image_open c w icon_path = Inr img0"
      and "recolor (convert_RGBA img0) = Inr result"
      and "writable w icon_path" and "\<not> writable w ico_path"
      and "w1 = print_line (w\<lparr>files := (files w)(icon_path \<mapsto> encode c PNG result)\<rparr>) msg_png"
      and "run c w = [(Start, w), (Loaded (convert_RGBA img0), w), (Recolored result, w),
        (Saved_raster result, w1), (Aborted PermissionError, w1)]"
  | (succeeds) img0 result w1 w2 where "Image_open c w icon_path = Inr img0"
      and "recolor (convert_RGBA img0) = Inr result"
      and "writable w icon_path" and "writable w ico_path"
      and "w1 = print_line (w\<lparr>files := (files w)(icon_path \<mapsto> encode c PNG result)\<rparr>) msg_png"
      and "w2 = print_line (w1\<lparr>files := (files w1)(ico_path \<mapsto> encode c ICO result)\<rparr>) msg_ico"
      and "run c w = [(Start, w), (Loaded (convert_RGBA img0), w), (Recolored result, w),
        (Saved_raster result, w1), (Saved_icon, w2), (Done, w2)]"
proof (cases "Image_open c w icon_path")
  case (Inl e)
  then show thesis by (intro load_fails [of e] run_load_fails)
next
  case open_ok: (Inr img0)
  show thesis
  proof (cases "recolor (convert_RGBA img0)")
    case (Inl e)
    with open_ok show thesis by (intro recolor_fails [of img0 e] run_recolor_fails)
  next
    case rec_ok: (Inr result)
    show thesis
    proof (cases "writable w icon_path")
      case False
      then have "save c w result icon_path = Inl PermissionError"
        by (simp add: save_icon_path)
      with open_ok rec_ok False show thesis
        by (intro raster_save_fails [of img0 result] run_raster_save_fails)
    next
      case wr1: True
      define w0 where "w0 = w\<lparr>files := (files w)(icon_path \<mapsto> encode c PNG result)\<rparr>"
      define w1 where "w1 = print_line w0 msg_png"
      have s1: "save c w result icon_path = Inr w0"
        using wr1 by (simp add: save_icon_path w0_def)
      have wr_same: "writable w1 = writable w"
        by (simp add: w1_def w0_def print_line_def)
      show thesis
      proof (cases "writable w ico_path")
        case False
        then have "save c (print_line w0 msg_png) result ico_path = Inl PermissionError"
          using wr_same by (simp add: save_ico_path w1_def)
        from run_icon_save_fails [OF open_ok rec_ok s1 this] open_ok rec_ok wr1 False
        show thesis
          by (intro icon_save_fails [of img0 result w1]) (simp_all add: w1_def w0_def)
      next
        case True
        define w2' where "w2' = w1\<lparr>files := (files w1)(ico_path \<mapsto> encode c ICO result)\<rparr>"
        from True have "save c (print_line w0 msg_png) result ico_path = Inr w2'"
          using wr_same by (simp add: save_ico_path w1_def w2'_def)
        from run_succeeds [OF open_ok rec_ok s1 this] open_ok rec_ok wr1 True
        show thesis
          by (intro succeeds [of img0 result w1 "print_line w2' msg_ico"])
            (simp_all add: w1_def w0_def w2'_def)
      qed
    qed
  qed
qed

lemma raw_roundtrip_sample: "raw_decode (raw_encode PNG sample_image) = Some sample_image"
  by (simp add: raw_decode_def raw_encode_def sample_image_def)

lemma open_sample_world: "Image_open raw_codec sample_world icon_path = Inr sample_image"
  by (simp add: Image_open_def sample_world_def raw_codec_def raw_roundtrip_sample)

lemma open_locked_ico_world:
  "Image_open raw_codec locked_ico_world icon_path = Inr sample_image"
  by (simp add: Image_open_def locked_ico_world_def sample_world_def raw_codec_def
      raw_roundtrip_sample)

lemma open_empty_world: "Image_open c empty_world icon_path = Inl FileNotFoundError"
  by (simp add: Image_open_def empty_world_def)


lemma recolor_sample:
  "recolor (convert_RGBA sample_image) = Inr (tinted (2, 1) [255, 128])"
  using sample_image_recolored by (simp add: convert_and_recolor_def)

lemma run_locked_ico_world:
  "run raw_codec locked_ico_world =
     [(Start, locked_ico_world), (Loaded (convert_RGBA sample_image), locked_ico_world),
      (Recolored (tinted (2, 1) [255, 128]), locked_ico_world),
      (Saved_raster (tinted (2, 1) [255, 128]),
       print_line (locked_ico_world\<lparr>files := (files locked_ico_world)
         (icon_path \<mapsto> raw_encode PNG (tinted (2, 1) [255, 128]))\<rparr>) msg_png),
      (Aborted PermissionError,
       print_line (locked_ico_world\<lparr>files := (files locked_ico_world)
         (icon_path \<mapsto> raw_encode PNG (tinted (2, 1) [255, 128]))\<rparr>) msg_png)]"
proof -
  have 1: "save raw_codec locked_ico_world (tinted (2, 1) [255, 128]) icon_path =
      Inr (locked_ico_world\<lparr>files := (files locked_ico_world)
         (icon_path \<mapsto> raw_encode PNG (tinted (2, 1) [255, 128]))\<rparr>)"
    by (simp add: save_icon_path locked_ico_world_def paths_differ raw_codec_def)
  have 2: "save raw_codec
      (print_line (locked_ico_world\<lparr>files := (files locked_ico_world)
         (icon_path \<mapsto> raw_encode PNG (tinted (2, 1) [255, 128]))\<rparr>) msg_png)
      (tinted (2, 1) [255, 128]) ico_path = Inl PermissionError"
    by (simp add: save_ico_path locked_ico_world_def print_line_def)
  show ?thesis
    by (rule run_icon_save_fails [OF open_locked_ico_world recolor_sample 1 2])
qed

lemma run_sample_world:
  "\<exists>w1 w2. run raw_codec sample_world =
     [(Start, sample_world), (Loaded (convert_RGBA sample_image), sample_world),
      (Recolored (tinted (2, 1) [255, 128]), sample_world),
      (Saved_raster (tinted (2, 1) [255, 128]), w1), (Saved_icon, w2), (Done, w2)] \<and>
     stdout w2 = [msg_png, msg_ico] \<and>
     files w2 icon_path = Some (raw_encode PNG (tinted (2, 1) [255, 128])) \<and>
     files w2 ico_path = Some (raw_encode ICO (tinted (2, 1) [255, 128]))"
proof -
  let ?out = "tinted (2, 1) [255, 128]"
  let ?w0 = "sample_world\<lparr>files := (files sample_world)(icon_path \<mapsto> raw_encode PNG ?out)\<rparr>"
  let ?w1 = "print_line ?w0 msg_png"
  let ?w2 = "?w1\<lparr>files := (files ?w1)(ico_path \<mapsto> raw_encode ICO ?out)\<rparr>"
  have 1: "save raw_codec sample_world ?out icon_path = Inr ?w0"
    by (simp add: save_icon_path sample_world_def raw_codec_def)
  have 2: "save raw_codec ?w1 ?out ico_path = Inr ?w2"
    by (simp add: save_ico_path sample_world_def print_line_def raw_codec_def)
  have "stdout (print_line ?w2 msg_ico) = [msg_png, msg_ico]"
    and "files (print_line ?w2 msg_ico) icon_path = Some (raw_encode PNG ?out)"
    and "files (print_line ?w2 msg_ico) ico_path = Some (raw_encode ICO ?out)"
    by (simp_all add: print_line_def sample_world_def paths_differ)
  with run_succeeds [OF open_sample_world recolor_sample 1 2] show ?thesis
    by blast
qed

section \<open>Runs that save both files\<close>

text \<open>
  A run on a decodable valid image with both paths writable ends at \<open>Done\<close>; both files
  hold encodings of the same recoloured image, one per format. What decoding the icon
  file gives is the codec's matter. When the raster codec gives back the image it was
  given, a second run writes the same two files again.
\<close>

lemma convert_and_recolor_fixes_tinted:
  assumes "length a = npixels sz"
  shows "convert_and_recolor (tinted sz a) = Inr (tinted sz a)"
proof -
  have "valid_image (tinted sz a)"
    using assms by (rule tinted_valid)
  moreover have "convert_RGBA (tinted sz a) = tinted sz a"
    by (rule convert_RGBA_same) (simp add: tinted_def)
  moreover have "img_size (tinted sz a) = sz" and "alpha_plane (tinted sz a) = a"
    by (simp_all add: tinted_def alpha_plane_def)
  ultimately show ?thesis
    by (simp add: convert_and_recolor_tinted)
qed

lemma successful_run_files:
  assumes "files w icon_path = Some bs" and "decode c bs = Some img"
    and "valid_image img"
    and "writable w icon_path" and "writable w ico_path"
    and "out = tinted (img_size img) (alpha_plane (convert_RGBA img))"
  shows "fst (outcome c w) = Done"
    and "files (snd (outcome c w)) =
      (files w)(icon_path \<mapsto> encode c PNG out, ico_path \<mapsto> encode c ICO out)"
    and "writable (snd (outcome c w)) = writable w"
    and "stdout (snd (outcome c w)) = stdout w @ [msg_png, msg_ico]"
proof -
  from assms(1,2) have o: "Image_open c w icon_path = Inr img"
    by (simp add: Image_open_def)
  from assms(3,6) have r: "recolor (convert_RGBA img) = Inr out"
    by (simp add: convert_and_recolor_tinted [symmetric] convert_and_recolor_def)
  have "fst (outcome c w) = Done \<and>
    files (snd (outcome c w)) =
      (files w)(icon_path \<mapsto> encode c PNG out, ico_path \<mapsto> encode c ICO out) \<and>
    writable (snd (outcome c w)) = writable w \<and>
    stdout (snd (outcome c w)) = stdout w @ [msg_png, msg_ico]"
  proof (cases rule: run_cases [of c w])
    case (succeeds img0 result w1 w2)
    with o r have "result = out" by simp
    with succeeds show ?thesis
      by (simp add: outcome_def print_line_def)
  qed (use o r assms in simp_all)
  then show "fst (outcome c w) = Done"
    and "files (snd (outcome c w)) =
      (files w)(icon_path \<mapsto> encode c PNG out, ico_path \<mapsto> encode c ICO out)"
    and "writable (snd (outcome c w)) = writable w"
    and "stdout (snd (outcome c w)) = stdout w @ [msg_png, msg_ico]"
    by simp_all
qed

lemma second_run_rewrites_same_files:
  assumes "files w icon_path = Some bs" and "decode c bs = Some img"
    and "valid_image img"
    and "writable w icon_path" and "writable w ico_path"
    and "out = tinted (img_size img) (alpha_plane (convert_RGBA img))"
    and lossless: "decode c (encode c PNG out) = Some out"
  shows "fst (outcome c (snd (outcome c w))) = Done \<and>
     files (snd (outcome c (snd (outcome c w)))) = files (snd (outcome c w))"
proof -
  let ?w' = "snd (outcome c w)"
  note first = successful_run_files [OF assms(1-6)]
  have v: "valid_image out"
    using assms(3,6) by (simp add: tinted_valid alpha_plane_length)
  have f: "files ?w' icon_path = Some (encode c PNG out)"
    by (simp add: first(2) paths_differ)
  have wr: "writable ?w' icon_path" "writable ?w' ico_path"
    using assms(4,5) by (simp_all add: first(3))
  have "convert_and_recolor out = Inr out"
    using assms(3,6) by (simp add: convert_and_recolor_fixes_tinted alpha_plane_length)
  with v have same: "out = tinted (img_size out) (alpha_plane (convert_RGBA out))"
    by (simp add: convert_and_recolor_tinted)
  from successful_run_files [OF f lossless v wr same] first(2)
  show ?thesis by simp
qed

section \<open>The claims about runs\<close>

text \<open>
  C5. If no file stands at the input path, or its bytes are not a decodable image, the run
  stops at line 6 with a file-access error (\<open>FileNotFoundError\<close> or
  \<open>UnidentifiedImageError\<close>, both operating-system errors) and the world is the one it
  started in: neither the raster path nor the icon path is written, and nothing is
  printed.
\<close>

theorem unreadable_input_writes_nothing:
  assumes "files w icon_path = None \<or>
     (\<exists>bs. files w icon_path = Some bs \<and> decode c bs = None)"
  shows "\<exists>e. outcome c w = (Aborted e, w) \<and> is_OSError e \<and>
     run c w = [(Start, w), (Aborted e, w)]"
proof -
  from assms have "Image_open c w icon_path = Inl FileNotFoundError \<or>
      Image_open c w icon_path = Inl UnidentifiedImageError"
    by (auto simp: Image_open_def)
  then obtain e where e: "Image_open c w icon_path = Inl e" and os: "is_OSError e"
    by auto
  from e have "run c w = [(Start, w), (Aborted e, w)]"
    by (rule run_load_fails)
  with os show ?thesis by (auto simp: outcome_def)
qed

theorem unreadable_input_writes_nothing_witness:
  "files empty_world icon_path = None \<and>
   outcome raw_codec empty_world = (Aborted FileNotFoundError, empty_world)"
proof -
  have n: "files empty_world icon_path = None"
    by (simp add: empty_world_def)
  then have "files empty_world icon_path = None \<or>
     (\<exists>bs. files empty_world icon_path = Some bs \<and> decode raw_codec bs = None)"
    by simp
  from unreadable_input_writes_nothing [OF this]
  obtain e where "outcome raw_codec empty_world = (Aborted e, empty_world)"
    and "run raw_codec empty_world = [(Start, empty_world), (Aborted e, empty_world)]"
    by blast
  moreover have "run raw_codec empty_world =
      [(Start, empty_world), (Aborted FileNotFoundError, empty_world)]"
    by (rule run_load_fails [OF open_empty_world])
  ultimately show ?thesis using n by simp
qed

lemma phases_prefix:
  assumes "k \<le> 4"
    and "phases c w = take (Suc k) script_order @ [if k = 4 then At_done else At_aborted]"
  shows "\<exists>k. k \<le> 4 \<and>
      phases c w = take (Suc k) script_order @ [if k = 4 then At_done else At_aborted]"
  using assms by blast

text \<open>
  C7. Every run passes through the points load, recolour, save raster, save icon in that
  order, each at most once: its phases are a prefix of the script's order followed by
  \<open>At_aborted\<close>, or the whole order followed by \<open>At_done\<close>, and the run always ends.
  Which it is follows the operations of the script. A failing load (line 6) aborts with
  its error and the world as it was. A failing recolouring aborts likewise. A failing
  raster save (line 24) aborts with its error, the icon path unwritten and nothing
  printed. A failing icon save (line 29) aborts with its error, the raster path holding
  the encoded recoloured image and only the first line printed. When all four succeed,
  the run ends at \<open>At_done\<close> with both files holding encodings of the recoloured image
  and both lines printed.
\<close>

theorem run_follows_script_order:
  "(\<exists>k. k \<le> 4 \<and>
      phases c w = take (Suc k) script_order @ [if k = 4 then At_done else At_aborted]) \<and>
   final (fst (outcome c w)) \<and>
   (\<forall>e. Image_open c w icon_path = Inl e \<longrightarrow>
      run c w = [(Start, w), (Aborted e, w)]) \<and>
   (\<forall>img0 e. Image_open c w icon_path = Inr img0 \<and>
        recolor (convert_RGBA img0) = Inl e \<longrightarrow>
      phases c w = [At_start, At_loaded, At_aborted] \<and>
      outcome c w = (Aborted e, w)) \<and>
   (\<forall>img0 result e. Image_open c w icon_path = Inr img0 \<and>
        recolor (convert_RGBA img0) = Inr result \<and>
        save c w result icon_path = Inl e \<longrightarrow>
      phases c w = [At_start, At_loaded, At_recolored, At_aborted] \<and>
      fst (outcome c w) = Aborted e \<and>
      files (snd (outcome c w)) ico_path = files w ico_path \<and>
      stdout (snd (outcome c w)) = stdout w) \<and>
   (\<forall>img0 result w1 e. Image_open c w icon_path = Inr img0 \<and>
        recolor (convert_RGBA img0) = Inr result \<and>
        save c w result icon_path = Inr w1 \<and>
        save c (print_line w1 msg_png) result ico_path = Inl e \<longrightarrow>
      phases c w = [At_start, At_loaded, At_recolored, At_saved_raster, At_aborted] \<and>
      fst (outcome c w) = Aborted e \<and>
      files (snd (outcome c w)) icon_path = Some (encode c PNG result) \<and>
      stdout (snd (outcome c w)) = stdout w @ [msg_png]) \<and>
   (\<forall>img0 result w1 w2. Image_open c w icon_path = Inr img0 \<and>
        recolor (convert_RGBA img0) = Inr result \<and>
        save c w result icon_path = Inr w1 \<and>
        save c (print_line w1 msg_png) result ico_path = Inr w2 \<longrightarrow>
      phases c w = [At_start, At_loaded, At_recolored, At_saved_raster, At_saved_icon,
        At_done] \<and>
      outcome c w = (Done, print_line w2 msg_ico) \<and>
      files w2 icon_path = Some (encode c PNG result) \<and>
      files w2 ico_path = Some (encode c ICO result))"
proof -
  have shape: "\<exists>k. k \<le> 4 \<and>
      phases c w = take (Suc k) script_order @ [if k = 4 then At_done else At_aborted]"
  proof (cases rule: run_cases [of c w])
    case (load_fails e)
    then show ?thesis
      by (intro phases_prefix [of 0]) (simp_all add: phases_def script_order_def)
  next
    case (recolor_fails img0 e)
    then show ?thesis
      by (intro phases_prefix [of 1]) (simp_all add: phases_def script_order_def)
  next
    case (raster_save_fails img0 result)
    then show ?thesis
      by (intro phases_prefix [of 2]) (simp_all add: phases_def script_order_def)
  next
    case (icon_save_fails img0 result w1)
    then show ?thesis
      by (intro phases_prefix [of 3]) (simp_all add: phases_def script_order_def)
  next
    case (succeeds img0 result w1 w2)
    then show ?thesis
      by (intro phases_prefix [of 4]) (simp_all add: phases_def script_order_def)
  qed
  have ends: "final (fst (outcome c w))"
    by (cases rule: run_cases [of c w]) (simp_all add: outcome_def)
  have load: "run c w = [(Start, w), (Aborted e, w)]"
    if "Image_open c w icon_path = Inl e" for e
    using that by (rule run_load_fails)
  have rec: "phases c w = [At_start, At_loaded, At_aborted] \<and> outcome c w = (Aborted e, w)"
    if "Image_open c w icon_path = Inr img0" and "recolor (convert_RGBA img0) = Inl e"
    for img0 e
    using run_recolor_fails [OF that] by (simp add: phases_def outcome_def)
  have raster: "phases c w = [At_start, At_loaded, At_recolored, At_aborted] \<and>
      fst (outcome c w) = Aborted e \<and>
      files (snd (outcome c w)) ico_path = files w ico_path \<and>
      stdout (snd (outcome c w)) = stdout w"
    if "Image_open c w icon_path = Inr img0" and "recolor (convert_RGBA img0) = Inr result"
      and "save c w result icon_path = Inl e"
    for img0 result e
    using run_raster_save_fails [OF that] by (simp add: phases_def outcome_def)
  have icon: "phases c w = [At_start, At_loaded, At_recolored, At_saved_raster, At_aborted] \<and>
      fst (outcome c w) = Aborted e \<and>
      files (snd (outcome c w)) icon_path = Some (encode c PNG result) \<and>
      stdout (snd (outcome c w)) = stdout w @ [msg_png]"
    if "Image_open c w icon_path = Inr img0" and "recolor (convert_RGBA img0) = Inr result"
      and "save c w result icon_path = Inr w1"
      and "save c (print_line w1 msg_png) result ico_path = Inl e"
    for img0 result w1 e
  proof -
    from that(3) have "files w1 icon_path = Some (encode c PNG result)"
      and "stdout w1 = stdout w"
      by (auto simp: save_icon_path split: if_splits)
    with run_icon_save_fails [OF that] show ?thesis
      by (simp add: phases_def outcome_def print_line_def)
  qed
  have all: "phases c w = [At_start, At_loaded, At_recolored, At_saved_raster,
        At_saved_icon, At_done] \<and>
      outcome c w = (Done, print_line w2 msg_ico) \<and>
      files w2 icon_path = Some (encode c PNG result) \<and>
      files w2 ico_path = Some (encode c ICO result)"
    if "Image_open c w icon_path = Inr img0" and "recolor (convert_RGBA img0) = Inr result"
      and "save c w result icon_path = Inr w1"
      and "save c (print_line w1 msg_png) result ico_path = Inr w2"
    for img0 result w1 w2
  proof -
    from that(3) have "files w1 icon_path = Some (encode c PNG result)"
      by (auto simp: save_icon_path split: if_splits)
    with that(4) have "files w2 icon_path = Some (encode c PNG result)"
      and "files w2 ico_path = Some (encode c ICO result)"
      by (auto simp: save_ico_path print_line_def paths_differ split: if_splits)
    with run_succeeds [OF that] show ?thesis
      by (simp add: phases_def outcome_def)
  qed
  from shape ends load rec raster icon all show ?thesis
    by blast
qed

theorem run_follows_script_order_witness:
  "Image_open raw_codec empty_world icon_path = Inl FileNotFoundError \<and>
   run raw_codec empty_world =
     [(Start, empty_world), (Aborted FileNotFoundError, empty_world)] \<and>
   Image_open raw_codec locked_ico_world icon_path = Inr sample_image \<and>
   recolor (convert_RGBA sample_image) = Inr (tinted (2, 1) [255, 128]) \<and>
   writable locked_ico_world icon_path \<and>
   save raw_codec
     (print_line (locked_ico_world\<lparr>files := (files locked_ico_world)
        (icon_path \<mapsto> raw_encode PNG (tinted (2, 1) [255, 128]))\<rparr>) msg_png)
     (tinted (2, 1) [255, 128]) ico_path = Inl PermissionError \<and>
   phases raw_codec locked_ico_world =
     [At_start, At_loaded, At_recolored, At_saved_raster, At_aborted] \<and>
   fst (outcome raw_codec locked_ico_world) = Aborted PermissionError \<and>
   files (snd (outcome raw_codec locked_ico_world)) icon_path =
     Some (raw_encode PNG (tinted (2, 1) [255, 128])) \<and>
   stdout (snd (outcome raw_codec locked_ico_world)) = [msg_png]"
proof -
  let ?out = "tinted (2, 1) [255, 128]"
  let ?w1 = "locked_ico_world\<lparr>files := (files locked_ico_world)
        (icon_path \<mapsto> raw_encode PNG ?out)\<rparr>"
  have wr: "writable locked_ico_world icon_path"
    by (simp add: locked_ico_world_def paths_differ)
  have s1: "save raw_codec locked_ico_world ?out icon_path = Inr ?w1"
    using wr by (simp add: save_icon_path raw_codec_def)
  have s2: "save raw_codec (print_line ?w1 msg_png) ?out ico_path = Inl PermissionError"
    by (simp add: save_ico_path locked_ico_world_def print_line_def)
  have e: "stdout locked_ico_world = []"
    by (simp add: locked_ico_world_def sample_world_def)
  have enc: "encode raw_codec PNG ?out = raw_encode PNG ?out"
    by (simp add: raw_codec_def)
  from run_follows_script_order [of raw_codec empty_world] open_empty_world
  have a: "run raw_codec empty_world =
     [(Start, empty_world), (Aborted FileNotFoundError, empty_world)]"
    by blast
  from run_follows_script_order [of raw_codec locked_ico_world]
    open_locked_ico_world recolor_sample s1 s2
  have "phases raw_codec locked_ico_world =
      [At_start, At_loaded, At_recolored, At_saved_raster, At_aborted] \<and>
    fst (outcome raw_codec locked_ico_world) = Aborted PermissionError \<and>
    files (snd (outcome raw_codec locked_ico_world)) icon_path =
      Some (encode raw_codec PNG ?out) \<and>
    stdout (snd (outcome raw_codec locked_ico_world)) = stdout locked_ico_world @ [msg_png]"
    by blast
  with a open_empty_world open_locked_ico_world recolor_sample wr s2 e enc
  show ?thesis by simp
qed

text \<open>
  C8, as stated, fails: when the icon save fails, the run has failed and yet one
  confirmation line is on the console, printed after the raster save.
\<close>

theorem one_line_printed_though_run_fails:
  "fst (outcome raw_codec locked_ico_world) = Aborted PermissionError \<and>
   stdout locked_ico_world = [] \<and>
   stdout (snd (outcome raw_codec locked_ico_world)) = [msg_png]"
proof -
  have "stdout locked_ico_world = []"
    by (simp add: locked_ico_world_def sample_world_def)
  then show ?thesis
    by (simp add: outcome_def run_locked_ico_world print_line_def)
qed

text \<open>
  C8, amended. A run that ends at \<open>Done\<close> has printed exactly the two confirmation lines,
  one after each save. A run that aborts has printed the first confirmation line when the
  raster save had succeeded (the input loaded, was recoloured, and the raster path was
  writable), and nothing otherwise.
\<close>

theorem confirmation_lines:
  "(fst (outcome c w) = Done \<longrightarrow>
      stdout (snd (outcome c w)) = stdout w @ [msg_png, msg_ico]) \<and>
   (\<forall>e. fst (outcome c w) = Aborted e \<longrightarrow>
      stdout (snd (outcome c w)) =
        stdout w @ (if At_saved_raster \<in> set (phases c w) then [msg_png] else [])) \<and>
   (At_saved_raster \<in> set (phases c w) \<longleftrightarrow>
      (\<exists>img0 result. Image_open c w icon_path = Inr img0 \<and>
         recolor (convert_RGBA img0) = Inr result \<and> writable w icon_path))"
proof (cases rule: run_cases [of c w])
  case (load_fails e)
  then show ?thesis by (simp add: outcome_def phases_def)
next
  case (recolor_fails img0 e)
  then show ?thesis by (simp add: outcome_def phases_def)
next
  case (raster_save_fails img0 result)
  then show ?thesis by (simp add: outcome_def phases_def)
next
  case (icon_save_fails img0 result w1)
  then show ?thesis by (simp add: outcome_def phases_def print_line_def)
next
  case (succeeds img0 result w1 w2)
  then show ?thesis by (simp add: outcome_def phases_def print_line_def)
qed

theorem confirmation_lines_witness:
  "fst (outcome raw_codec sample_world) = Done \<and>
   stdout sample_world = [] \<and>
   stdout (snd (outcome raw_codec sample_world)) = [msg_png, msg_ico]"
proof -
  from run_sample_world have d: "fst (outcome raw_codec sample_world) = Done"
    by (auto simp: outcome_def)
  have e: "stdout sample_world = []"
    by (simp add: sample_world_def)
  from confirmation_lines [of raw_codec sample_world] d e show ?thesis
    by simp
qed

text \<open>
  C10. When the input is a decodable valid image, the raster path is writable and the
  icon path is not, the run aborts at the icon save with the raster path already holding
  the encoded recoloured image; the icon path and every other path hold what they held
  before, so the original image is kept nowhere.
\<close>

theorem raster_replaced_when_icon_save_fails:
  assumes "files w icon_path = Some bs" and "decode c bs = Some img"
    and "valid_image img"
    and "writable w icon_path" and "\<not> writable w ico_path"
  shows "\<exists>out. convert_and_recolor img = Inr out \<and>
     outcome c w =
       (Aborted PermissionError,
        w\<lparr>files := (files w)(icon_path \<mapsto> encode c PNG out),
          stdout := stdout w @ [msg_png]\<rparr>) \<and>
     files (snd (outcome c w)) icon_path = Some (encode c PNG out) \<and>
     files (snd (outcome c w)) ico_path = files w ico_path \<and>
     (\<forall>p. p \<noteq> icon_path \<longrightarrow> files (snd (outcome c w)) p = files w p)"
proof -
  from assms(1,2) have o: "Image_open c w icon_path = Inr img"
    by (simp add: Image_open_def)
  from assms(3) obtain out where r: "convert_and_recolor img = Inr out"
    by (auto simp: convert_and_recolor_tinted)
  then have r': "recolor (convert_RGBA img) = Inr out"
    by (simp add: convert_and_recolor_def)
  show ?thesis
  proof (cases rule: run_cases [of c w])
    case (icon_save_fails img0 result w1)
    with o r' have "result = out" by simp
    with icon_save_fails r show ?thesis
      by (simp add: outcome_def print_line_def paths_differ [symmetric])
  qed (use o r' assms in simp_all)
qed

theorem raster_replaced_when_icon_save_fails_witness:
  "files locked_ico_world icon_path = Some (raw_encode PNG sample_image) \<and>
   decode raw_codec (raw_encode PNG sample_image) = Some sample_image \<and>
   valid_image sample_image \<and>
   writable locked_ico_world icon_path \<and>
   writable locked_ico_world ico_path = False \<and>
   fst (outcome raw_codec locked_ico_world) = Aborted PermissionError \<and>
   files (snd (outcome raw_codec locked_ico_world)) icon_path =
     Some [1, 2, 1, 8, 8, 203, 203, 0, 0, 255, 128] \<and>
   files (snd (outcome raw_codec locked_ico_world)) ico_path = None"
proof -
  have 1: "files locked_ico_world icon_path = Some (raw_encode PNG sample_image)"
    by (simp add: locked_ico_world_def sample_world_def)
  have 2: "decode raw_codec (raw_encode PNG sample_image) = Some sample_image"
    by (simp add: raw_codec_def raw_roundtrip_sample)
  have 3: "writable locked_ico_world icon_path"
    by (simp add: locked_ico_world_def paths_differ)
  have 4: "\<not> writable locked_ico_world ico_path"
    by (simp add: locked_ico_world_def)
  have 5: "files locked_ico_world ico_path = None"
    by (simp add: locked_ico_world_def sample_world_def paths_differ [symmetric])
  from raster_replaced_when_icon_save_fails [OF 1 2 sample_image_valid 3 4]
  obtain out where "convert_and_recolor sample_image = Inr out"
    and "fst (outcome raw_codec locked_ico_world) = Aborted PermissionError"
    and "files (snd (outcome raw_codec locked_ico_world)) icon_path
           = Some (encode raw_codec PNG out)"
    and "files (snd (outcome raw_codec locked_ico_world)) ico_path
           = files locked_ico_world ico_path"
    by auto
  moreover have "encode raw_codec PNG (tinted (2, 1) [255, 128])
      = [1, 2, 1, 8, 8, 203, 203, 0, 0, 255, 128]"
    by (simp add: raw_codec_def raw_encode_def tinted_def npixels_def numeral_2_eq_2)
  ultimately show ?thesis
    using 1 2 3 4 5 sample_image_valid sample_image_recolored by simp
qed

end
